theory Spec2Isabelle
  imports Complex_Main
begin

section \<open>Vegetation indices (\<^verbatim>\<open>models/vegetation_indices.py\<close>)\<close>

text \<open>
  A band is a two-dimensional numpy array of floats. It is modelled as a list of rows of
  real numbers; Python floats are modelled as reals throughout (no rounding, no NaN, no
  infinity). The numpy operators used by the calculator are element-wise; they are
  written here for arrays of one common shape, which is what the calculator is given
  (broadcasting between different shapes is not modelled).
\<close>

type_synonym ndarray = "real list list"

definition shape :: "ndarray \<Rightarrow> nat list" where
  "shape a = map length a"

definition ew1 :: "(real \<Rightarrow> real) \<Rightarrow> ndarray \<Rightarrow> ndarray" where
  "ew1 f a = map (map f) a"

definition ew2 :: "(real \<Rightarrow> real \<Rightarrow> real) \<Rightarrow> ndarray \<Rightarrow> ndarray \<Rightarrow> ndarray" where
  "ew2 f a b = map2 (map2 f) a b"

text \<open>\<^verbatim>\<open>a + b\<close>, \<^verbatim>\<open>a - b\<close>, \<^verbatim>\<open>a / b\<close> on arrays.\<close>

definition np_add :: "ndarray \<Rightarrow> ndarray \<Rightarrow> ndarray" where
  "np_add a b = ew2 (\<lambda>x y. x + y) a b"

definition np_sub :: "ndarray \<Rightarrow> ndarray \<Rightarrow> ndarray" where
  "np_sub a b = ew2 (\<lambda>x y. x - y) a b"

definition np_div :: "ndarray \<Rightarrow> ndarray \<Rightarrow> ndarray" where
  "np_div a b = ew2 (\<lambda>x y. x / y) a b"

text \<open>\<^verbatim>\<open>c * a\<close>, \<^verbatim>\<open>a * c\<close>, \<^verbatim>\<open>a + c\<close>, \<^verbatim>\<open>a - c\<close> with a scalar \<open>c\<close>.\<close>

definition np_scale :: "real \<Rightarrow> ndarray \<Rightarrow> ndarray" where
  "np_scale c a = ew1 (\<lambda>x. c * x) a"

definition np_times :: "ndarray \<Rightarrow> real \<Rightarrow> ndarray" where
  "np_times a c = ew1 (\<lambda>x. x * c) a"

definition np_plus :: "ndarray \<Rightarrow> real \<Rightarrow> ndarray" where
  "np_plus a c = ew1 (\<lambda>x. x + c) a"

definition np_minus :: "ndarray \<Rightarrow> real \<Rightarrow> ndarray" where
  "np_minus a c = ew1 (\<lambda>x. x - c) a"

text \<open>\<^verbatim>\<open>np.where(a == 0, v, a)\<close> and \<^verbatim>\<open>np.clip(a, lo, hi)\<close>.\<close>

definition np_where_eq0 :: "real \<Rightarrow> ndarray \<Rightarrow> ndarray" where
  "np_where_eq0 v a = ew1 (\<lambda>x. if x = 0 then v else x) a"

definition np_clip :: "ndarray \<Rightarrow> real \<Rightarrow> real \<Rightarrow> ndarray" where
  "np_clip a lo hi = ew1 (\<lambda>x. min (max x lo) hi) a"

text \<open>The constant \<^verbatim>\<open>1e-10\<close>.\<close>

definition eps :: real where
  "eps = 1 / 10 ^ 10"

text \<open>
  Each calculator first builds the denominator, replaces its zeros, divides and clips.
  The denominator after replacement is a definition of its own, so that it can be
  spoken about.
\<close>

definition ndvi_denominator :: "ndarray \<Rightarrow> ndarray \<Rightarrow> ndarray" where
  "ndvi_denominator red nir = np_where_eq0 eps (np_add nir red)"

definition calculate_ndvi :: "ndarray \<Rightarrow> ndarray \<Rightarrow> ndarray" where
  "calculate_ndvi red nir =
     (let denominator = ndvi_denominator red nir;
          ndvi = np_div (np_sub nir red) denominator
      in np_clip ndvi (- 1) 1)"

definition evi_denominator :: "ndarray \<Rightarrow> ndarray \<Rightarrow> ndarray \<Rightarrow> ndarray" where
  "evi_denominator nir red blue =
     np_where_eq0 eps
       (np_plus (np_sub (np_add nir (np_scale 6 red)) (np_scale 7.5 blue)) 1)"

definition calculate_evi :: "ndarray \<Rightarrow> ndarray \<Rightarrow> ndarray \<Rightarrow> ndarray" where
  "calculate_evi nir red blue =
     (let denominator = evi_denominator nir red blue;
          evi = np_div (np_scale 2.5 (np_sub nir red)) denominator
      in np_clip evi (- 1) 1)"

definition savi_denominator :: "ndarray \<Rightarrow> ndarray \<Rightarrow> real \<Rightarrow> ndarray" where
  "savi_denominator nir red l = np_where_eq0 eps (np_plus (np_add nir red) l)"

definition calculate_savi :: "ndarray \<Rightarrow> ndarray \<Rightarrow> real \<Rightarrow> ndarray" where
  "calculate_savi nir red l =
     (let denominator = savi_denominator nir red l;
          savi = np_times (np_div (np_sub nir red) denominator) (1 + l)
      in np_clip savi (- 1) 1)"

definition ndwi_denominator :: "ndarray \<Rightarrow> ndarray \<Rightarrow> ndarray" where
  "ndwi_denominator nir swir = np_where_eq0 eps (np_add nir swir)"

definition calculate_ndwi :: "ndarray \<Rightarrow> ndarray \<Rightarrow> ndarray" where
  "calculate_ndwi nir swir =
     (let denominator = ndwi_denominator nir swir;
          ndwi = np_div (np_sub nir swir) denominator
      in np_clip ndwi (- 1) 1)"

definition gci_denominator :: "ndarray \<Rightarrow> ndarray" where
  "gci_denominator green = np_where_eq0 eps green"

definition calculate_gci :: "ndarray \<Rightarrow> ndarray \<Rightarrow> ndarray" where
  "calculate_gci nir green =
     (let green' = gci_denominator green;
          gci = np_minus (np_div nir green') 1
      in np_clip gci (- 1) 10)"

text \<open>The default \<^verbatim>\<open>l = 0.5\<close> of \<^verbatim>\<open>calculate_savi\<close>.\<close>

definition savi_default_l :: real where
  "savi_default_l = 0.5"

text \<open>Every pixel of an array satisfies a predicate.\<close>

definition all_pixels :: "(real \<Rightarrow> bool) \<Rightarrow> ndarray \<Rightarrow> bool" where
  "all_pixels P a = list_all (list_all P) a"

definition in_range :: "real \<Rightarrow> real \<Rightarrow> real \<Rightarrow> bool" where
  "in_range lo hi x = (lo \<le> x \<and> x \<le> hi)"

text \<open>The pixel in row \<open>i\<close>, column \<open>j\<close> exists in an array.\<close>

definition has_pixel :: "ndarray \<Rightarrow> nat \<Rightarrow> nat \<Rightarrow> bool" where
  "has_pixel a i j = (i < length (shape a) \<and> j < shape a ! i)"

text \<open>The scenario grids of the specification: 2 by 2 bands.\<close>

definition const_band :: "real \<Rightarrow> ndarray" where
  "const_band v = [[v, v], [v, v]]"

section \<open>Python values, dictionaries and exceptions\<close>

text \<open>
  The values found in the input dictionaries: \<^verbatim>\<open>None\<close>, a number or a string.
  A dictionary with string keys is an association list in insertion order, looked up from
  the front. An exception is a value; \<open>OSError\<close> stands for the
  \<^verbatim>\<open>FileNotFoundError\<close>/\<^verbatim>\<open>IOError\<close> family, and \<open>DecodeError\<close> for whatever a
  library raises on a file it cannot decode.
\<close>

datatype pyval = PNone | PNum real | PStr string

datatype py_error =
    ValueError string
  | TypeError string
  | OSError string
  | DecodeError string

type_synonym 'v dict = "(string \<times> 'v) list"

text \<open>\<^verbatim>\<open>d.get(k, default)\<close> and \<^verbatim>\<open>k in d\<close>.\<close>

definition dict_get :: "'v dict \<Rightarrow> string \<Rightarrow> 'v \<Rightarrow> 'v" where
  "dict_get d k dflt = (case map_of d k of None \<Rightarrow> dflt | Some v \<Rightarrow> v)"

definition dict_in :: "string \<Rightarrow> 'v dict \<Rightarrow> bool" where
  "dict_in k d = (map_of d k \<noteq> None)"

section \<open>The estimation model (\<^verbatim>\<open>models/carbon_estimation_model.py\<close>)\<close>

text \<open>
  The fitted Keras network and the fitted \<^verbatim>\<open>StandardScaler\<close> are library objects. The
  network is the function computed by \<^verbatim>\<open>model.predict(x)[0][0]\<close> on one scaled feature
  row, the scaler the function computed by \<^verbatim>\<open>scaler.transform\<close> on one feature row;
  either may raise. Nothing else about them is assumed.
\<close>

type_synonym keras_model = "real list \<Rightarrow> py_error + real"
type_synonym standard_scaler = "pyval list \<Rightarrow> py_error + real list"

record CarbonEstimationModel =
  model_path :: "string option"
  model :: "keras_model option"
  scaler :: "standard_scaler option"
  feature_columns :: "string list"
  ecosystem_types :: "int dict"

definition default_feature_columns :: "string list" where
  "default_feature_columns =
     [''ndvi'', ''evi'', ''savi'', ''ndwi'',
      ''temperature'', ''humidity'', ''soil_moisture'',
      ''salinity'', ''ph'', ''organic_matter'',
      ''biomass_density'', ''canopy_height'',
      ''area_hectares'', ''ecosystem_type_encoded'']"

definition default_ecosystem_types :: "int dict" where
  "default_ecosystem_types =
     [(''mangrove'', 0), (''saltmarsh'', 1), (''seagrass'', 2), (''tidal_marsh'', 3)]"

text \<open>\<^verbatim>\<open>__init__(self, model_path=None)\<close>.\<close>

definition init :: "string option \<Rightarrow> CarbonEstimationModel" where
  "init mp =
     \<lparr>model_path = mp, model = None, scaler = None,
      feature_columns = default_feature_columns,
      ecosystem_types = default_ecosystem_types\<rparr>"

text \<open>
  \<^verbatim>\<open>self.ecosystem_types.get(ecosystem_type, 0)\<close>: the keys of the table are strings, so
  a value that is not a string is not found.
\<close>

definition encode_ecosystem :: "int dict \<Rightarrow> pyval \<Rightarrow> int" where
  "encode_ecosystem tbl v = (case v of PStr s \<Rightarrow> dict_get tbl s 0 | _ \<Rightarrow> 0)"

text \<open>
  \<^verbatim>\<open>prepare_features\<close>. The argument maps the group names to the group dictionaries; the
  result is the one row of the returned 1 by 14 array.
\<close>

definition prepare_features :: "CarbonEstimationModel \<Rightarrow> pyval dict dict \<Rightarrow> pyval list" where
  "prepare_features self data =
     (let satellite_data = dict_get data ''satellite_data'' [];
          ndvi = dict_get satellite_data ''ndvi'' (PNum 0.0);
          evi = dict_get satellite_data ''evi'' (PNum 0.0);
          savi = dict_get satellite_data ''savi'' (PNum 0.0);
          ndwi = dict_get satellite_data ''ndwi'' (PNum 0.0);
          sensor_data = dict_get data ''sensor_data'' [];
          temperature = dict_get sensor_data ''temperature'' (PNum 25.0);
          humidity = dict_get sensor_data ''humidity'' (PNum 70.0);
          soil_moisture = dict_get sensor_data ''soil_moisture'' (PNum 0.5);
          salinity = dict_get sensor_data ''salinity'' (PNum 35.0);
          ph = dict_get sensor_data ''ph'' (PNum 7.0);
          organic_matter = dict_get sensor_data ''organic_matter'' (PNum 2.0);
          field_measurements = dict_get data ''field_measurements'' [];
          biomass_density = dict_get field_measurements ''biomass_density'' (PNum 10.0);
          canopy_height = dict_get field_measurements ''canopy_height'' (PNum 5.0);
          project_data = dict_get data ''project_data'' [];
          area_hectares = dict_get project_data ''area_hectares'' (PNum 1.0);
          ecosystem_type = dict_get project_data ''ecosystem_type'' (PStr ''mangrove'');
          ecosystem_type_encoded = encode_ecosystem (ecosystem_types self) ecosystem_type
      in [ndvi, evi, savi, ndwi,
          temperature, humidity, soil_moisture,
          salinity, ph, organic_matter,
          biomass_density, canopy_height,
          area_hectares, PNum (of_int ecosystem_type_encoded)])"

text \<open>
  The dictionary returned by \<^verbatim>\<open>predict\<close>. The clock reading
  \<^verbatim>\<open>datetime.utcnow().isoformat()\<close> is an argument of the model.
\<close>

record prediction =
  carbon_estimate_tonnes_co2_per_hectare_per_year :: real
  confidence :: real
  timestamp :: string
  model_version :: string

definition predict ::
  "CarbonEstimationModel \<Rightarrow> string \<Rightarrow> pyval dict dict \<Rightarrow> py_error + prediction" where
  "predict self utcnow data =
     (case model self of
        None \<Rightarrow> Inl (ValueError ''Model not trained or loaded'')
      | Some m \<Rightarrow>
     (case scaler self of
        None \<Rightarrow> Inl (ValueError ''Model not trained or loaded'')
      | Some sc \<Rightarrow>
          (let features = prepare_features self data in
           case sc features of
             Inl e \<Rightarrow> Inl e
           | Inr features_scaled \<Rightarrow>
          (case m features_scaled of
             Inl e \<Rightarrow> Inl e
           | Inr carbon_estimate \<Rightarrow>
               (let confidence = min 0.95 (max 0.5 (1.0 - \<bar>carbon_estimate\<bar> * 0.01))
                in Inr \<lparr>carbon_estimate_tonnes_co2_per_hectare_per_year = carbon_estimate,
                        confidence = confidence,
                        timestamp = utcnow,
                        model_version = ''1.0.0''\<rparr>)))))"

subsection \<open>Persistence\<close>

text \<open>
  The file system is a store from path names to files. A file holds what the library
  that wrote it serialised: Keras the network, joblib the scaler, json the metadata
  document, whose four keys may each be missing. Serialisation is modelled as keeping
  the value; directories and failing writes are not modelled, except for the one call
  whose argument the code fixes: \<^verbatim>\<open>os.makedirs('', exist_ok=True)\<close> raises
  \<^verbatim>\<open>FileNotFoundError\<close>.
\<close>

record metadata =
  md_feature_columns :: "string list option"
  md_ecosystem_types :: "int dict option"
  md_model_version :: "string option"
  md_created_at :: "string option"

datatype stored_file = H5File keras_model | PickleFile standard_scaler | JsonFile metadata

type_synonym filesystem = "string \<rightharpoonup> stored_file"

text \<open>\<^verbatim>\<open>os.path.join(a, b)\<close> and \<^verbatim>\<open>os.path.dirname(p)\<close> of posixpath.\<close>

definition path_join :: "string \<Rightarrow> string \<Rightarrow> string" where
  "path_join a b =
     (if b \<noteq> [] \<and> hd b = CHR ''/'' then b
      else if a = [] \<or> last a = CHR ''/'' then a @ b
      else a @ ''/'' @ b)"

definition dirname :: "string \<Rightarrow> string" where
  "dirname p =
     (let head = rev (dropWhile (\<lambda>c. c \<noteq> CHR ''/'') (rev p))
      in if head \<noteq> [] \<and> \<not> list_all (\<lambda>c. c = CHR ''/'') head
         then rev (dropWhile (\<lambda>c. c = CHR ''/'') (rev head))
         else head)"

definition save_model ::
  "CarbonEstimationModel \<Rightarrow> string \<Rightarrow> string \<Rightarrow> filesystem \<Rightarrow> py_error + filesystem" where
  "save_model self path utcnow fs =
     (case model self of
        None \<Rightarrow> Inl (ValueError ''No model to save'')
      | Some m \<Rightarrow>
     (case scaler self of
        None \<Rightarrow> Inl (ValueError ''No model to save'')
      | Some sc \<Rightarrow>
          if dirname path = [] then Inl (OSError ''No such file or directory'')
          else
            (let model_path = path_join path ''carbon_estimation_model.h5'';
                 fs = fs(model_path \<mapsto> H5File m);
                 scaler_path = path_join path ''scaler.pkl'';
                 fs = fs(scaler_path \<mapsto> PickleFile sc);
                 metadata = \<lparr>md_feature_columns = Some (feature_columns self),
                             md_ecosystem_types = Some (ecosystem_types self),
                             md_model_version = Some ''1.0.0'',
                             md_created_at = Some utcnow\<rparr>;
                 metadata_path = path_join path ''metadata.json'';
                 fs = fs(metadata_path \<mapsto> JsonFile metadata)
             in Inr fs)))"

text \<open>
  \<^verbatim>\<open>load_model\<close> assigns \<^verbatim>\<open>self.model\<close>, then \<^verbatim>\<open>self.scaler\<close>, then the two
  metadata attributes; an exception on the way leaves the earlier assignments in place.
  The result is the exception raised, if any, and the object afterwards.
\<close>

definition load_model ::
  "CarbonEstimationModel \<Rightarrow> string \<Rightarrow> filesystem \<Rightarrow> py_error option \<times> CarbonEstimationModel" where
  "load_model self path fs =
     (let model_path = path_join path ''carbon_estimation_model.h5'' in
      case fs model_path of
        None \<Rightarrow> (Some (OSError model_path), self)
      | Some (PickleFile _) \<Rightarrow> (Some (DecodeError model_path), self)
      | Some (JsonFile _) \<Rightarrow> (Some (DecodeError model_path), self)
      | Some (H5File m) \<Rightarrow>
     (let self = self\<lparr>model := Some m\<rparr>;
          scaler_path = path_join path ''scaler.pkl'' in
      case fs scaler_path of
        None \<Rightarrow> (Some (OSError scaler_path), self)
      | Some (H5File _) \<Rightarrow> (Some (DecodeError scaler_path), self)
      | Some (JsonFile _) \<Rightarrow> (Some (DecodeError scaler_path), self)
      | Some (PickleFile sc) \<Rightarrow>
     (let self = self\<lparr>scaler := Some sc\<rparr>;
          metadata_path = path_join path ''metadata.json'' in
      case fs metadata_path of
        None \<Rightarrow> (Some (OSError metadata_path), self)
      | Some (H5File _) \<Rightarrow> (Some (DecodeError metadata_path), self)
      | Some (PickleFile _) \<Rightarrow> (Some (DecodeError metadata_path), self)
      | Some (JsonFile metadata) \<Rightarrow>
     (let self = self\<lparr>feature_columns :=
                   (case md_feature_columns metadata of
                      None \<Rightarrow> feature_columns self | Some c \<Rightarrow> c)\<rparr>;
          self = self\<lparr>ecosystem_types :=
                   (case md_ecosystem_types metadata of
                      None \<Rightarrow> ecosystem_types self | Some t \<Rightarrow> t)\<rparr>
      in (None, self)))))"

section \<open>The model service (\<^verbatim>\<open>services/model_service.py\<close>)\<close>

record ModelService =
  carbon_model :: "CarbonEstimationModel option"
  model_loaded :: bool
  service_model_path :: string
  last_update :: "string option"

subsection \<open>Data quality\<close>

text \<open>
  The three running variables of \<^verbatim>\<open>_assess_data_quality\<close>. Each group is checked
  in turn; \<^verbatim>\<open>if satellite_data:\<close> is true of a dictionary that is not empty.
\<close>

record quality_vars =
  quality_score :: int
  max_score :: int
  issues_so_far :: "string list"

definition add_point :: "bool \<Rightarrow> quality_vars \<Rightarrow> quality_vars" where
  "add_point present q = (if present then q\<lparr>quality_score := quality_score q + 1\<rparr> else q)"

definition check_satellite_data :: "pyval dict dict \<Rightarrow> quality_vars \<Rightarrow> quality_vars" where
  "check_satellite_data input_data q =
     (let satellite_data = dict_get input_data ''satellite_data'' [] in
      if satellite_data \<noteq> [] then
        (let q = q\<lparr>max_score := max_score q + 4\<rparr>;
             q = add_point (dict_in ''ndvi'' satellite_data) q;
             q = add_point (dict_in ''evi'' satellite_data) q;
             q = add_point (dict_in ''savi'' satellite_data) q;
             q = add_point (dict_in ''ndwi'' satellite_data) q
         in q)
      else q\<lparr>issues_so_far := issues_so_far q @ [''No satellite data provided'']\<rparr>)"

definition check_sensor_data :: "pyval dict dict \<Rightarrow> quality_vars \<Rightarrow> quality_vars" where
  "check_sensor_data input_data q =
     (let sensor_data = dict_get input_data ''sensor_data'' [] in
      if sensor_data \<noteq> [] then
        (let q = q\<lparr>max_score := max_score q + 3\<rparr>;
             q = add_point (dict_in ''temperature'' sensor_data) q;
             q = add_point (dict_in ''soil_moisture'' sensor_data) q;
             q = add_point (dict_in ''salinity'' sensor_data) q
         in q)
      else q\<lparr>issues_so_far := issues_so_far q @ [''No sensor data provided'']\<rparr>)"

definition check_field_measurements :: "pyval dict dict \<Rightarrow> quality_vars \<Rightarrow> quality_vars" where
  "check_field_measurements input_data q =
     (let field_measurements = dict_get input_data ''field_measurements'' [] in
      if field_measurements \<noteq> [] then
        (let q = q\<lparr>max_score := max_score q + 2\<rparr>;
             q = add_point (dict_in ''biomass_density'' field_measurements) q;
             q = add_point (dict_in ''canopy_height'' field_measurements) q
         in q)
      else q\<lparr>issues_so_far := issues_so_far q @ [''No field measurements provided'']\<rparr>)"

record data_quality =
  score :: real
  level :: string
  issues :: "string list"

text \<open>\<^verbatim>\<open>_assess_data_quality\<close> (an Isabelle name cannot start with an underscore).\<close>

definition assess_data_quality :: "pyval dict dict \<Rightarrow> data_quality" where
  "assess_data_quality input_data =
     (let q = \<lparr>quality_score = 0, max_score = 0, issues_so_far = []\<rparr>;
          q = check_satellite_data input_data q;
          q = check_sensor_data input_data q;
          q = check_field_measurements input_data q;
          quality_percentage =
            (if max_score q > 0
             then real_of_int (quality_score q) / real_of_int (max_score q) * 100
             else 0)
      in \<lparr>score = quality_percentage,
          level = (if quality_percentage > 80 then ''high''
                   else if quality_percentage > 60 then ''medium'' else ''low''),
          issues = issues_so_far q\<rparr>)"

subsection \<open>Recommendations\<close>

text \<open>
  \<^verbatim>\<open>_generate_recommendations\<close>. The comparison \<^verbatim>\<open>area_hectares < 1\<close> raises
  \<^verbatim>\<open>TypeError\<close> when the stored value is \<^verbatim>\<open>None\<close> or a string.
\<close>

definition append_if :: "bool \<Rightarrow> string \<Rightarrow> string list \<Rightarrow> string list" where
  "append_if c msg recs = (if c then recs @ [msg] else recs)"

definition generate_recommendations ::
  "pyval dict dict \<Rightarrow> prediction \<Rightarrow> py_error + string list" where
  "generate_recommendations input_data prediction =
     (let recommendations = [];
          data_quality = assess_data_quality input_data;
          recommendations = append_if (score data_quality < 60)
            ''Consider collecting more comprehensive data to improve prediction accuracy''
            recommendations;
          recommendations = append_if (confidence prediction < 0.7)
            ''Prediction confidence is low. Consider additional field measurements''
            recommendations;
          ecosystem_type =
            dict_get (dict_get input_data ''project_data'' []) ''ecosystem_type'' (PStr []);
          recommendations =
            (if ecosystem_type = PStr ''mangrove'' then recommendations @
               [''Mangrove ecosystems typically have high carbon sequestration potential'']
             else if ecosystem_type = PStr ''seagrass'' then recommendations @
               [''Seagrass meadows are important carbon sinks but require careful monitoring'']
             else recommendations);
          area_hectares =
            dict_get (dict_get input_data ''project_data'' []) ''area_hectares'' (PNum 0)
      in case area_hectares of
           PNum a \<Rightarrow> Inr (append_if (a < 1)
             ''Small project areas may have higher uncertainty in carbon estimates''
             recommendations)
         | _ \<Rightarrow> Inl (TypeError ''< not supported''))"

subsection \<open>Prediction through the service\<close>

record analysis =
  confidence_level :: string
  data_quality :: data_quality
  recommendations :: "string list"

record analysed_prediction = prediction +
  analysis :: analysis

text \<open>\<^verbatim>\<open>_analyze_prediction\<close>.\<close>

definition analyze_prediction ::
  "pyval dict dict \<Rightarrow> prediction \<Rightarrow> py_error + analysis" where
  "analyze_prediction input_data prediction =
     (let confidence_level =
            (if confidence prediction > 0.8 then ''high''
             else if confidence prediction > 0.6 then ''medium'' else ''low'');
          quality = assess_data_quality input_data
      in case generate_recommendations input_data prediction of
           Inl e \<Rightarrow> Inl e
         | Inr recs \<Rightarrow>
             Inr \<lparr>confidence_level = confidence_level,
                  data_quality = quality,
                  recommendations = recs\<rparr>)"

definition predict_carbon_sequestration ::
  "ModelService \<Rightarrow> string \<Rightarrow> pyval dict \<Rightarrow> pyval dict \<Rightarrow> pyval dict \<Rightarrow> pyval dict
     \<Rightarrow> py_error + analysed_prediction" where
  "predict_carbon_sequestration self utcnow satellite_data sensor_data
       field_measurements project_data =
     (case (model_loaded self, carbon_model self) of
        (True, Some cm) \<Rightarrow>
          (let input_data =
                 [(''satellite_data'', satellite_data),
                  (''sensor_data'', sensor_data),
                  (''field_measurements'', field_measurements),
                  (''project_data'', project_data)]
           in case predict cm utcnow input_data of
                Inl e \<Rightarrow> Inl e
              | Inr prediction \<Rightarrow>
             (case analyze_prediction input_data prediction of
                Inl e \<Rightarrow> Inl e
              | Inr a \<Rightarrow> Inr (prediction.extend prediction (analysed_prediction.fields a))))
      | _ \<Rightarrow> Inl (ValueError ''Model not loaded''))"

section \<open>The specification's clamp, and example objects\<close>

text \<open>\<open>clamp(x, lo, hi)\<close> as the specification's confidence formula reads it.\<close>

definition clamp_spec :: "real \<Rightarrow> real \<Rightarrow> real \<Rightarrow> real" where
  "clamp_spec x lo hi = (if x < lo then lo else if hi < x then hi else x)"

text \<open>
  A scaler that passes numeric features through and rejects anything else, a network
  with a constant output, and a model object holding both.
\<close>

fun numeric_row :: "pyval list \<Rightarrow> py_error + real list" where
  "numeric_row [] = Inr []"
| "numeric_row (PNum x # vs) =
     (case numeric_row vs of Inl e \<Rightarrow> Inl e | Inr xs \<Rightarrow> Inr (x # xs))"
| "numeric_row (v # vs) = Inl (ValueError ''could not convert to float'')"

definition constant_network :: "real \<Rightarrow> keras_model" where
  "constant_network c = (\<lambda>xs. Inr c)"

definition trained_example :: "real \<Rightarrow> CarbonEstimationModel" where
  "trained_example c =
     (init None)\<lparr>model := Some (constant_network c), scaler := Some numeric_row\<rparr>"

section \<open>Notions used to state the claims\<close>

text \<open>
  A field is absent from the input when its group is missing or the group has no such
  key. A group is present for the quality assessment when it holds at least one key.
\<close>

definition field_absent :: "pyval dict dict \<Rightarrow> string \<Rightarrow> string \<Rightarrow> bool" where
  "field_absent data g k =
     (case map_of data g of None \<Rightarrow> True | Some grp \<Rightarrow> map_of grp k = None)"

definition group_present :: "pyval dict dict \<Rightarrow> string \<Rightarrow> bool" where
  "group_present data g = (dict_get data g [] \<noteq> [])"

text \<open>
  The specification's table of defaults, in the order of the feature vector: group,
  field, default value.
\<close>

definition documented_defaults :: "(string \<times> string \<times> real) list" where
  "documented_defaults =
     [(''satellite_data'', ''ndvi'', 0.0),
      (''satellite_data'', ''evi'', 0.0),
      (''satellite_data'', ''savi'', 0.0),
      (''satellite_data'', ''ndwi'', 0.0),
      (''sensor_data'', ''temperature'', 25.0),
      (''sensor_data'', ''humidity'', 70.0),
      (''sensor_data'', ''soil_moisture'', 0.5),
      (''sensor_data'', ''salinity'', 35.0),
      (''sensor_data'', ''ph'', 7.0),
      (''sensor_data'', ''organic_matter'', 2.0),
      (''field_measurements'', ''biomass_density'', 10.0),
      (''field_measurements'', ''canopy_height'', 5.0),
      (''project_data'', ''area_hectares'', 1.0)]"

text \<open>
  The specification's quality score: one point for each scored field that is present,
  out of the weights (4, 3, 2) of the groups that are present.
\<close>

definition points_of :: "pyval dict dict \<Rightarrow> string \<Rightarrow> string list \<Rightarrow> int" where
  "points_of data g keys = int (length (filter (\<lambda>k. dict_in k (dict_get data g [])) keys))"

definition total_points :: "pyval dict dict \<Rightarrow> int" where
  "total_points data =
     points_of data ''satellite_data'' [''ndvi'', ''evi'', ''savi'', ''ndwi'']
   + points_of data ''sensor_data'' [''temperature'', ''soil_moisture'', ''salinity'']
   + points_of data ''field_measurements'' [''biomass_density'', ''canopy_height'']"

definition total_weight :: "pyval dict dict \<Rightarrow> int" where
  "total_weight data =
     (if group_present data ''satellite_data'' then 4 else 0)
   + (if group_present data ''sensor_data'' then 3 else 0)
   + (if group_present data ''field_measurements'' then 2 else 0)"

definition small_area_caveat :: string where
  "small_area_caveat = ''Small project areas may have higher uncertainty in carbon estimates''"

text \<open>Example inputs: a project of an unknown ecosystem type with one sensor reading.\<close>

definition kelp_input :: "pyval dict dict" where
  "kelp_input = [(''project_data'', [(''ecosystem_type'', PStr ''kelp'')]),
                 (''sensor_data'', [(''temperature'', PNum 31)])]"

text \<open>A request without sensor data.\<close>

definition no_sensor_input :: "pyval dict dict" where
  "no_sensor_input =
     [(''satellite_data'', [(''ndvi'', PNum 0.6)]),
      (''field_measurements'', [(''biomass_density'', PNum 15), (''canopy_height'', PNum 8)])]"

text \<open>A mangrove project whose area is not given, and a prediction for it.\<close>

definition mangrove_no_area :: "pyval dict dict" where
  "mangrove_no_area =
     [(''satellite_data'', [(''ndvi'', PNum 0.6), (''evi'', PNum 0.4), (''savi'', PNum 0.5),
                            (''ndwi'', PNum 0.3)]),
      (''project_data'', [(''ecosystem_type'', PStr ''mangrove'')])]"

definition example_prediction :: prediction where
  "example_prediction =
     \<lparr>carbon_estimate_tonnes_co2_per_hectare_per_year = 12, confidence = 0.88,
      timestamp = ''2026-01-01T00:00:00'', model_version = ''1.0.0''\<rparr>"

text \<open>
  A directory for the artifact, an artifact saved from the example model, and one whose
  metadata lists other feature columns.
\<close>

definition artifact_dir :: string where
  "artifact_dir = ''/app/models/carbon_estimation''"

definition mismatched_columns :: "string list" where
  "mismatched_columns = [''ecosystem_type_encoded'', ''ndvi'']"

definition mismatched_artifact :: filesystem where
  "mismatched_artifact =
     [path_join artifact_dir ''carbon_estimation_model.h5'' \<mapsto> H5File (constant_network 12),
      path_join artifact_dir ''scaler.pkl'' \<mapsto> PickleFile numeric_row,
      path_join artifact_dir ''metadata.json'' \<mapsto>
        JsonFile \<lparr>md_feature_columns = Some mismatched_columns,
                  md_ecosystem_types = Some default_ecosystem_types,
                  md_model_version = Some ''1.0.0'',
                  md_created_at = Some ''2026-01-01T00:00:00''\<rparr>]"

definition saved_example :: filesystem where
  "saved_example =
     [path_join artifact_dir ''carbon_estimation_model.h5'' \<mapsto> H5File (constant_network 12),
      path_join artifact_dir ''scaler.pkl'' \<mapsto> PickleFile numeric_row,
      path_join artifact_dir ''metadata.json'' \<mapsto>
        JsonFile \<lparr>md_feature_columns = Some default_feature_columns,
                  md_ecosystem_types = Some default_ecosystem_types,
                  md_model_version = Some ''1.0.0'',
                  md_created_at = Some ''2026-01-01T00:00:00''\<rparr>]"

section \<open>Facts about the array operators\<close>

lemma shape_ew1: "shape (ew1 f a) = shape a"
  by (simp add: shape_def ew1_def)

lemma shape_ew2: "shape a = shape b \<Longrightarrow> shape (ew2 f a b) = shape b"
proof (induction a arbitrary: b)
  case Nil
  then show ?case by (simp add: shape_def ew2_def)
next
  case (Cons r rs)
  then obtain s ss where b: "b = s # ss" by (cases b) (auto simp: shape_def)
  with Cons.prems have "length r = length s" and "shape rs = shape ss"
    by (simp_all add: shape_def)
  with Cons.IH [of ss] b show ?case
    by (simp add: shape_def ew2_def)
qed

lemma all_pixels_ew1: "(\<And>x. P (f x)) \<Longrightarrow> all_pixels P (ew1 f a)"
  by (simp add: all_pixels_def ew1_def list_all_iff)

lemma in_range_clip: "lo \<le> hi \<Longrightarrow> all_pixels (in_range lo hi) (np_clip a lo hi)"
  unfolding np_clip_def by (rule all_pixels_ew1) (simp add: in_range_def)

lemma shape_np_clip: "shape (np_clip a lo hi) = shape a"
  by (simp add: np_clip_def shape_ew1)

lemma shape_calculate_ndvi: "shape red = shape nir \<Longrightarrow> shape (calculate_ndvi red nir) = shape nir"
  by (simp add: calculate_ndvi_def ndvi_denominator_def np_clip_def np_div_def np_sub_def
      np_add_def np_where_eq0_def shape_ew1 shape_ew2)

lemma shape_calculate_evi:
  "shape red = shape nir \<Longrightarrow> shape blue = shape nir \<Longrightarrow> shape (calculate_evi nir red blue) = shape nir"
  by (simp add: calculate_evi_def evi_denominator_def np_clip_def np_div_def np_sub_def
      np_add_def np_where_eq0_def np_scale_def np_plus_def shape_ew1 shape_ew2)

lemma shape_calculate_savi:
  "shape red = shape nir \<Longrightarrow> shape (calculate_savi nir red l) = shape nir"
  by (simp add: calculate_savi_def savi_denominator_def np_clip_def np_div_def np_sub_def
      np_add_def np_where_eq0_def np_times_def np_plus_def shape_ew1 shape_ew2)

lemma shape_calculate_ndwi:
  "shape swir = shape nir \<Longrightarrow> shape (calculate_ndwi nir swir) = shape nir"
  by (simp add: calculate_ndwi_def ndwi_denominator_def np_clip_def np_div_def np_sub_def
      np_add_def np_where_eq0_def shape_ew1 shape_ew2)

lemma shape_calculate_gci:
  "shape green = shape nir \<Longrightarrow> shape (calculate_gci nir green) = shape nir"
  by (simp add: calculate_gci_def gci_denominator_def np_clip_def np_div_def np_minus_def
      np_where_eq0_def shape_ew1 shape_ew2)

lemma has_pixel_shape: "shape a = shape b \<Longrightarrow> has_pixel a i j = has_pixel b i j"
  by (simp add: has_pixel_def)

lemma has_pixel_ew1: "has_pixel (ew1 f a) i j = has_pixel a i j"
  by (simp add: has_pixel_def shape_ew1)

lemma has_pixel_ew2: "shape a = shape b \<Longrightarrow> has_pixel (ew2 f a b) i j = has_pixel b i j"
  by (simp add: has_pixel_def shape_ew2)

lemma has_pixelD: "has_pixel a i j \<Longrightarrow> i < length a \<and> j < length (a ! i)"
  by (auto simp: has_pixel_def shape_def)

lemma nth_ew1: "has_pixel a i j \<Longrightarrow> ew1 f a ! i ! j = f (a ! i ! j)"
  by (auto simp: ew1_def dest: has_pixelD)

lemma nth_ew2:
  assumes "shape a = shape b" "has_pixel b i j"
  shows "ew2 f a b ! i ! j = f (a ! i ! j) (b ! i ! j)"
proof -
  from assms have "has_pixel a i j" by (simp add: has_pixel_def)
  with assms(2) show ?thesis
    by (auto simp: ew2_def dest!: has_pixelD)
qed

lemmas px_simps = nth_ew1 nth_ew2 has_pixel_ew1 has_pixel_ew2 shape_ew1 shape_ew2
  np_add_def np_sub_def np_div_def np_scale_def np_times_def np_plus_def np_minus_def
  np_where_eq0_def np_clip_def

lemma calculate_ndvi_px:
  assumes sr: "shape red = shape nir" and px: "has_pixel nir i j"
  shows "ndvi_denominator red nir ! i ! j =
           (if nir ! i ! j + red ! i ! j = 0 then eps else nir ! i ! j + red ! i ! j)"
    and "calculate_ndvi red nir ! i ! j =
           min (max ((nir ! i ! j - red ! i ! j) / (ndvi_denominator red nir ! i ! j)) (- 1)) 1"
proof -
  note hr = has_pixel_shape [OF sr]
  show "ndvi_denominator red nir ! i ! j =
           (if nir ! i ! j + red ! i ! j = 0 then eps else nir ! i ! j + red ! i ! j)"
    by (simp add: ndvi_denominator_def px_simps sr hr px)
  have sd: "shape (ndvi_denominator red nir) = shape nir"
    by (simp add: ndvi_denominator_def px_simps sr)
  note hd = has_pixel_shape [OF sd]
  show "calculate_ndvi red nir ! i ! j =
           min (max ((nir ! i ! j - red ! i ! j) / (ndvi_denominator red nir ! i ! j)) (- 1)) 1"
    by (simp add: calculate_ndvi_def px_simps sr hr sd hd px)
qed

lemma calculate_ndwi_px:
  assumes sr: "shape swir = shape nir" and px: "has_pixel nir i j"
  shows "ndwi_denominator nir swir ! i ! j =
           (if nir ! i ! j + swir ! i ! j = 0 then eps else nir ! i ! j + swir ! i ! j)"
    and "calculate_ndwi nir swir ! i ! j =
           min (max ((nir ! i ! j - swir ! i ! j) / (ndwi_denominator nir swir ! i ! j)) (- 1)) 1"
proof -
  note hr = has_pixel_shape [OF sr]
  show "ndwi_denominator nir swir ! i ! j =
           (if nir ! i ! j + swir ! i ! j = 0 then eps else nir ! i ! j + swir ! i ! j)"
    by (simp add: ndwi_denominator_def px_simps sr hr px)
  have sd: "shape (ndwi_denominator nir swir) = shape nir"
    by (simp add: ndwi_denominator_def px_simps sr)
  note hd = has_pixel_shape [OF sd]
  show "calculate_ndwi nir swir ! i ! j =
           min (max ((nir ! i ! j - swir ! i ! j) / (ndwi_denominator nir swir ! i ! j)) (- 1)) 1"
    by (simp add: calculate_ndwi_def px_simps sr hr sd hd px)
qed

lemma calculate_savi_px:
  assumes sr: "shape red = shape nir" and px: "has_pixel nir i j"
  shows "savi_denominator nir red l ! i ! j =
           (if nir ! i ! j + red ! i ! j + l = 0 then eps else nir ! i ! j + red ! i ! j + l)"
    and "calculate_savi nir red l ! i ! j =
           min (max ((nir ! i ! j - red ! i ! j) / (savi_denominator nir red l ! i ! j) * (1 + l)) (- 1)) 1"
proof -
  note hr = has_pixel_shape [OF sr]
  show "savi_denominator nir red l ! i ! j =
           (if nir ! i ! j + red ! i ! j + l = 0 then eps else nir ! i ! j + red ! i ! j + l)"
    by (simp add: savi_denominator_def px_simps sr hr px)
  have sd: "shape (savi_denominator nir red l) = shape nir"
    by (simp add: savi_denominator_def px_simps sr)
  note hd = has_pixel_shape [OF sd]
  show "calculate_savi nir red l ! i ! j =
           min (max ((nir ! i ! j - red ! i ! j) / (savi_denominator nir red l ! i ! j) * (1 + l)) (- 1)) 1"
    by (simp add: calculate_savi_def px_simps sr hr sd hd px)
qed

lemma calculate_gci_px:
  assumes sr: "shape green = shape nir" and px: "has_pixel nir i j"
  shows "gci_denominator green ! i ! j = (if green ! i ! j = 0 then eps else green ! i ! j)"
    and "calculate_gci nir green ! i ! j =
           min (max (nir ! i ! j / (gci_denominator green ! i ! j) - 1) (- 1)) 10"
proof -
  note hr = has_pixel_shape [OF sr]
  show "gci_denominator green ! i ! j = (if green ! i ! j = 0 then eps else green ! i ! j)"
    by (simp add: gci_denominator_def px_simps sr hr px)
  have sd: "shape (gci_denominator green) = shape nir"
    by (simp add: gci_denominator_def px_simps sr)
  note hd = has_pixel_shape [OF sd]
  show "calculate_gci nir green ! i ! j =
           min (max (nir ! i ! j / (gci_denominator green ! i ! j) - 1) (- 1)) 10"
    by (simp add: calculate_gci_def px_simps sr hr sd hd px)
qed

lemma calculate_evi_px:
  assumes sr: "shape red = shape nir" and sb: "shape blue = shape nir"
    and px: "has_pixel nir i j"
  shows "evi_denominator nir red blue ! i ! j =
           (if nir ! i ! j + 6 * red ! i ! j - 7.5 * blue ! i ! j + 1 = 0 then eps
            else nir ! i ! j + 6 * red ! i ! j - 7.5 * blue ! i ! j + 1)"
    and "calculate_evi nir red blue ! i ! j =
           min (max (2.5 * (nir ! i ! j - red ! i ! j) / (evi_denominator nir red blue ! i ! j)) (- 1)) 1"
proof -
  note hr = has_pixel_shape [OF sr]
  note hb = has_pixel_shape [OF sb]
  show "evi_denominator nir red blue ! i ! j =
           (if nir ! i ! j + 6 * red ! i ! j - 7.5 * blue ! i ! j + 1 = 0 then eps
            else nir ! i ! j + 6 * red ! i ! j - 7.5 * blue ! i ! j + 1)"
    by (simp add: evi_denominator_def px_simps sr sb hr hb px)
  have sd: "shape (evi_denominator nir red blue) = shape nir"
    by (simp add: evi_denominator_def px_simps sr sb)
  note hd = has_pixel_shape [OF sd]
  show "calculate_evi nir red blue ! i ! j =
           min (max (2.5 * (nir ! i ! j - red ! i ! j) / (evi_denominator nir red blue ! i ! j)) (- 1)) 1"
    by (simp add: calculate_evi_def px_simps sr sb hr hb sd hd px)
qed


lemma eps_pos: "0 < eps"
  by (simp add: eps_def)

lemma clip_in_range: "lo \<le> hi \<Longrightarrow> in_range lo hi (min (max x lo) hi)"
  by (simp add: in_range_def)

section \<open>The claims\<close>

subsection \<open>Vegetation indices\<close>

text \<open>
  Claim C3. For bands of one common shape, every pixel of NDVI, EVI, SAVI and NDWI lies in
  \<open>[-1, 1]\<close> and every pixel of GCI in \<open>[-1, 10]\<close>; each index has the shape
  of its bands, so it has a value at every pixel.
\<close>

theorem index_values_within_clamp_range:
  assumes "shape red = shape nir" and "shape blue = shape nir"
    and "shape swir = shape nir" and "shape green = shape nir"
  shows "all_pixels (in_range (- 1) 1) (calculate_ndvi red nir)
       \<and> all_pixels (in_range (- 1) 1) (calculate_evi nir red blue)
       \<and> all_pixels (in_range (- 1) 1) (calculate_savi nir red l)
       \<and> all_pixels (in_range (- 1) 1) (calculate_ndwi nir swir)
       \<and> all_pixels (in_range (- 1) 10) (calculate_gci nir green)
       \<and> shape (calculate_ndvi red nir) = shape nir
       \<and> shape (calculate_evi nir red blue) = shape nir
       \<and> shape (calculate_savi nir red l) = shape nir
       \<and> shape (calculate_ndwi nir swir) = shape nir
       \<and> shape (calculate_gci nir green) = shape nir"
proof -
  have "all_pixels (in_range (- 1) 1) (calculate_ndvi red nir)"
    by (simp add: calculate_ndvi_def in_range_clip)
  moreover have "all_pixels (in_range (- 1) 1) (calculate_evi nir red blue)"
    by (simp add: calculate_evi_def in_range_clip)
  moreover have "all_pixels (in_range (- 1) 1) (calculate_savi nir red l)"
    by (simp add: calculate_savi_def in_range_clip)
  moreover have "all_pixels (in_range (- 1) 1) (calculate_ndwi nir swir)"
    by (simp add: calculate_ndwi_def in_range_clip)
  moreover have "all_pixels (in_range (- 1) 10) (calculate_gci nir green)"
    by (simp add: calculate_gci_def in_range_clip)
  ultimately show ?thesis
    using assms shape_calculate_ndvi shape_calculate_evi shape_calculate_savi
      shape_calculate_ndwi shape_calculate_gci by simp
qed

text \<open>
  The scenario of the specification: red 0.1 and near infrared 0.5 over a 2 by 2 grid give
  NDVI 2/3 at every pixel.
\<close>

theorem index_values_within_clamp_range_witness:
  "shape (const_band 0.1) = shape (const_band 0.5)
   \<and> shape (const_band 0.05) = shape (const_band 0.5)
   \<and> shape (const_band 0.2) = shape (const_band 0.5)
   \<and> shape (const_band 0.08) = shape (const_band 0.5)
   \<and> calculate_ndvi (const_band 0.1) (const_band 0.5) = const_band (2/3)
   \<and> all_pixels (in_range (- 1) 1) (calculate_ndvi (const_band 0.1) (const_band 0.5))
   \<and> all_pixels (in_range (- 1) 1) (calculate_evi (const_band 0.5) (const_band 0.1) (const_band 0.05))
   \<and> all_pixels (in_range (- 1) 1) (calculate_savi (const_band 0.5) (const_band 0.1) savi_default_l)
   \<and> all_pixels (in_range (- 1) 1) (calculate_ndwi (const_band 0.5) (const_band 0.2))
   \<and> all_pixels (in_range (- 1) 10) (calculate_gci (const_band 0.5) (const_band 0.08))"
proof -
  have sh: "\<And>v. shape (const_band v) = shape (const_band 0.5)"
    by (simp add: const_band_def shape_def)
  have v: "calculate_ndvi (const_band 0.1) (const_band 0.5) = const_band (2/3)"
    by (simp add: const_band_def calculate_ndvi_def ndvi_denominator_def np_clip_def
        np_div_def np_sub_def np_add_def np_where_eq0_def ew1_def ew2_def eps_def)
  from index_values_within_clamp_range [where red = "const_band 0.1" and nir = "const_band 0.5"
      and blue = "const_band 0.05" and swir = "const_band 0.2"
      and green = "const_band 0.08" and l = savi_default_l, OF sh sh sh sh] sh v
  show ?thesis by simp
qed

text \<open>
  Claim C4. At every pixel the denominator an index divides by is not zero: where the
  computed denominator is zero it has been replaced by \<open>1e-10\<close>. In particular, where
  \<open>nir + red = 0\<close> NDVI is the clipped quotient by \<open>1e-10\<close> (so 0 where
  \<open>nir = red = 0\<close>), and where \<open>green = 0\<close> GCI is the clipped value of
  \<open>nir / 1e-10 - 1\<close>. Every index value lies in its clamp range, hence is a finite
  number. The calculators are total functions: nothing is raised.
\<close>

theorem zero_denominator_replaced_by_epsilon:
  assumes sr: "shape red = shape nir" and sb: "shape blue = shape nir"
    and ss: "shape swir = shape nir" and sg: "shape green = shape nir"
    and px: "has_pixel nir i j"
  shows "ndvi_denominator red nir ! i ! j \<noteq> 0
       \<and> evi_denominator nir red blue ! i ! j \<noteq> 0
       \<and> savi_denominator nir red l ! i ! j \<noteq> 0
       \<and> ndwi_denominator nir swir ! i ! j \<noteq> 0
       \<and> gci_denominator green ! i ! j \<noteq> 0
       \<and> (nir ! i ! j + red ! i ! j = 0 \<longrightarrow>
            ndvi_denominator red nir ! i ! j = eps
          \<and> calculate_ndvi red nir ! i ! j
              = min (max ((nir ! i ! j - red ! i ! j) / eps) (- 1)) 1)
       \<and> (nir ! i ! j = 0 \<and> red ! i ! j = 0 \<longrightarrow> calculate_ndvi red nir ! i ! j = 0)
       \<and> (nir ! i ! j + 6 * red ! i ! j - 7.5 * blue ! i ! j + 1 = 0 \<longrightarrow>
            evi_denominator nir red blue ! i ! j = eps)
       \<and> (nir ! i ! j + red ! i ! j + l = 0 \<longrightarrow> savi_denominator nir red l ! i ! j = eps)
       \<and> (nir ! i ! j + swir ! i ! j = 0 \<longrightarrow> ndwi_denominator nir swir ! i ! j = eps)
       \<and> (green ! i ! j = 0 \<longrightarrow>
            gci_denominator green ! i ! j = eps
          \<and> calculate_gci nir green ! i ! j = min (max (nir ! i ! j / eps - 1) (- 1)) 10)
       \<and> in_range (- 1) 1 (calculate_ndvi red nir ! i ! j)
       \<and> in_range (- 1) 1 (calculate_evi nir red blue ! i ! j)
       \<and> in_range (- 1) 1 (calculate_savi nir red l ! i ! j)
       \<and> in_range (- 1) 1 (calculate_ndwi nir swir ! i ! j)
       \<and> in_range (- 1) 10 (calculate_gci nir green ! i ! j)"
proof -
  note ndvi = calculate_ndvi_px [OF sr px]
  note evi = calculate_evi_px [OF sr sb px]
  note savi = calculate_savi_px [OF sr px, of l]
  note ndwi = calculate_ndwi_px [OF ss px]
  note gci = calculate_gci_px [OF sg px]
  have e: "eps \<noteq> 0" using eps_pos by simp
  have d1: "ndvi_denominator red nir ! i ! j \<noteq> 0" using e by (simp add: ndvi(1))
  have d2: "evi_denominator nir red blue ! i ! j \<noteq> 0" using e by (simp add: evi(1))
  have d3: "savi_denominator nir red l ! i ! j \<noteq> 0" using e by (simp add: savi(1))
  have d4: "ndwi_denominator nir swir ! i ! j \<noteq> 0" using e by (simp add: ndwi(1))
  have d5: "gci_denominator green ! i ! j \<noteq> 0" using e by (simp add: gci(1))
  have z1: "nir ! i ! j + red ! i ! j = 0 \<longrightarrow>
            ndvi_denominator red nir ! i ! j = eps
          \<and> calculate_ndvi red nir ! i ! j
              = min (max ((nir ! i ! j - red ! i ! j) / eps) (- 1)) 1"
    by (simp add: ndvi)
  have z1': "nir ! i ! j = 0 \<and> red ! i ! j = 0 \<longrightarrow> calculate_ndvi red nir ! i ! j = 0"
    by (simp add: ndvi)
  have z2: "nir ! i ! j + 6 * red ! i ! j - 7.5 * blue ! i ! j + 1 = 0 \<longrightarrow>
            evi_denominator nir red blue ! i ! j = eps"
    by (simp add: evi(1))
  have z3: "nir ! i ! j + red ! i ! j + l = 0 \<longrightarrow> savi_denominator nir red l ! i ! j = eps"
    by (simp add: savi(1))
  have z4: "nir ! i ! j + swir ! i ! j = 0 \<longrightarrow> ndwi_denominator nir swir ! i ! j = eps"
    by (simp add: ndwi(1))
  have z5: "green ! i ! j = 0 \<longrightarrow>
            gci_denominator green ! i ! j = eps
          \<and> calculate_gci nir green ! i ! j = min (max (nir ! i ! j / eps - 1) (- 1)) 10"
    by (simp add: gci)
  have r1: "in_range (- 1) 1 (calculate_ndvi red nir ! i ! j)"
    unfolding ndvi(2) by (rule clip_in_range) simp
  have r2: "in_range (- 1) 1 (calculate_evi nir red blue ! i ! j)"
    unfolding evi(2) by (rule clip_in_range) simp
  have r3: "in_range (- 1) 1 (calculate_savi nir red l ! i ! j)"
    unfolding savi(2) by (rule clip_in_range) simp
  have r4: "in_range (- 1) 1 (calculate_ndwi nir swir ! i ! j)"
    unfolding ndwi(2) by (rule clip_in_range) simp
  have r5: "in_range (- 1) 10 (calculate_gci nir green ! i ! j)"
    unfolding gci(2) by (rule clip_in_range) simp
  from d1 d2 d3 d4 d5 z1 z1' z2 z3 z4 z5 r1 r2 r3 r4 r5 show ?thesis by blast
qed

text \<open>All bands zero at pixel (0, 0): NDVI is 0 and GCI is -1 there.\<close>

theorem zero_denominator_replaced_by_epsilon_witness:
  "shape (const_band 0) = shape (const_band 0)
   \<and> has_pixel (const_band 0) 0 0
   \<and> const_band 0 ! 0 ! 0 + const_band 0 ! 0 ! 0 = 0
   \<and> ndvi_denominator (const_band 0) (const_band 0) ! 0 ! 0 = eps
   \<and> calculate_ndvi (const_band 0) (const_band 0) ! 0 ! 0 = 0
   \<and> gci_denominator (const_band 0) ! 0 ! 0 = eps
   \<and> calculate_gci (const_band 0) (const_band 0) ! 0 ! 0 = - 1
   \<and> calculate_gci (const_band 0.5) (const_band 0) ! 0 ! 0 = 10"
proof -
  have sh: "\<And>v. shape (const_band v) = shape (const_band 0)"
    by (simp add: const_band_def shape_def)
  have px: "has_pixel (const_band 0) 0 0"
    by (simp add: has_pixel_def const_band_def shape_def)
  have z: "const_band 0 ! 0 ! 0 = 0" by (simp add: const_band_def)
  have g: "calculate_gci (const_band 0.5) (const_band 0) ! 0 ! 0 = 10"
    by (simp add: const_band_def calculate_gci_def gci_denominator_def np_clip_def
        np_div_def np_minus_def np_where_eq0_def ew1_def ew2_def eps_def)
  from zero_denominator_replaced_by_epsilon [where red = "const_band 0" and nir = "const_band 0" and blue = "const_band 0"
      and swir = "const_band 0" and green = "const_band 0" and i = 0 and j = 0 and l = "0.5",
      OF sh sh sh sh px] sh px z g
  show ?thesis by (simp add: eps_def)
qed

subsection \<open>Prediction\<close>

text \<open>
  When \<^verbatim>\<open>predict\<close> returns, both library objects were present, neither raised, and
  the result is built from the raw output of the network.
\<close>

lemma predict_Inr_iff:
  "predict self utcnow data = Inr r \<longleftrightarrow>
     (\<exists>m sc xs c. model self = Some m \<and> scaler self = Some sc
        \<and> sc (prepare_features self data) = Inr xs \<and> m xs = Inr c
        \<and> r = \<lparr>carbon_estimate_tonnes_co2_per_hectare_per_year = c,
                confidence = min 0.95 (max 0.5 (1.0 - \<bar>c\<bar> * 0.01)),
                timestamp = utcnow, model_version = ''1.0.0''\<rparr>)"
  by (auto simp: predict_def Let_def split: option.splits sum.splits)

text \<open>
  With no input groups at all the feature row holds the fourteen defaults, and the
  example model returns its constant.
\<close>

lemma prepare_features_empty:
  "prepare_features (trained_example c) [] =
     [PNum 0, PNum 0, PNum 0, PNum 0, PNum 25, PNum 70, PNum 0.5, PNum 35, PNum 7, PNum 2,
      PNum 10, PNum 5, PNum 1, PNum 0]"
  by (simp add: prepare_features_def trained_example_def init_def dict_get_def
      encode_ecosystem_def default_ecosystem_types_def)

lemma predict_trained_example:
  "predict (trained_example c) utcnow [] =
     Inr \<lparr>carbon_estimate_tonnes_co2_per_hectare_per_year = c,
          confidence = min 0.95 (max 0.5 (1.0 - \<bar>c\<bar> * 0.01)),
          timestamp = utcnow, model_version = ''1.0.0''\<rparr>"
  unfolding predict_def prepare_features_empty
  by (simp add: trained_example_def init_def constant_network_def)

text \<open>
  Claim C1. Whenever \<^verbatim>\<open>predict\<close> succeeds, the confidence of the result is
  \<open>clamp(1 - 0.01 * |estimate|, 0.5, 0.95)\<close> for the returned estimate, and so lies
  in \<open>[0.5, 0.95]\<close> whatever the magnitude or sign of the estimate.
\<close>

theorem predict_confidence_is_clamp:
  assumes "predict self utcnow data = Inr r"
  shows "confidence r =
           clamp_spec (1 - 0.01 * \<bar>carbon_estimate_tonnes_co2_per_hectare_per_year r\<bar>) 0.5 0.95
       \<and> 0.5 \<le> confidence r \<and> confidence r \<le> 0.95"
proof -
  from assms obtain c where r: "r = \<lparr>carbon_estimate_tonnes_co2_per_hectare_per_year = c,
                confidence = min 0.95 (max 0.5 (1.0 - \<bar>c\<bar> * 0.01)),
                timestamp = utcnow, model_version = ''1.0.0''\<rparr>"
    unfolding predict_Inr_iff by blast
  show ?thesis unfolding r by (simp add: clamp_spec_def)
qed

text \<open>
  An estimate of -100000 gives confidence 0.5.
\<close>

theorem predict_confidence_is_clamp_witness:
  "predict (trained_example (- 100000)) ''2026-01-01T00:00:00'' [] =
     Inr \<lparr>carbon_estimate_tonnes_co2_per_hectare_per_year = - 100000, confidence = 0.5,
          timestamp = ''2026-01-01T00:00:00'', model_version = ''1.0.0''\<rparr>
   \<and> clamp_spec (1 - 0.01 * \<bar>- 100000\<bar>) 0.5 0.95 = 0.5"
proof -
  have p: "predict (trained_example (- 100000)) ''2026-01-01T00:00:00'' [] =
     Inr \<lparr>carbon_estimate_tonnes_co2_per_hectare_per_year = - 100000, confidence = 0.5,
          timestamp = ''2026-01-01T00:00:00'', model_version = ''1.0.0''\<rparr>"
    by (simp add: predict_trained_example)
  from predict_confidence_is_clamp [OF p] p show ?thesis by simp
qed

text \<open>
  Claim C2. \<^verbatim>\<open>predict\<close> on an object whose network or scaler is absent raises
  (the Python exception is \<^verbatim>\<open>ValueError("Model not trained or loaded")\<close>, the
  not-ready error of the specification) and returns no estimate. Through the service,
  \<^verbatim>\<open>predict_carbon_sequestration\<close> raises \<^verbatim>\<open>ValueError("Model not loaded")\<close> when
  no model is loaded, and passes on the model's own exception when the loaded object has
  no network or scaler.
\<close>

theorem predict_uninitialized_fails:
  "(model self = None \<or> scaler self = None \<longrightarrow>
      predict self utcnow data = Inl (ValueError ''Model not trained or loaded''))
   \<and> (\<not> model_loaded svc \<or> carbon_model svc = None \<longrightarrow>
      predict_carbon_sequestration svc utcnow satellite_data sensor_data
        field_measurements project_data = Inl (ValueError ''Model not loaded''))
   \<and> (model_loaded svc' \<and> carbon_model svc' = Some cm \<and> (model cm = None \<or> scaler cm = None) \<longrightarrow>
      predict_carbon_sequestration svc' utcnow satellite_data sensor_data
        field_measurements project_data = Inl (ValueError ''Model not trained or loaded''))"
  by (auto simp: predict_def predict_carbon_sequestration_def Let_def split: option.splits bool.splits)

text \<open>
  A freshly constructed object, a service that loaded nothing, and a service holding a
  freshly constructed object.
\<close>

theorem predict_uninitialized_fails_witness:
  "model (init None) = None
   \<and> predict (init None) ''t'' [] = Inl (ValueError ''Model not trained or loaded'')
   \<and> predict_carbon_sequestration
        \<lparr>carbon_model = None, model_loaded = False, service_model_path = ''/app/models/carbon_estimation'',
         last_update = None\<rparr> ''t'' [] [] [] [] = Inl (ValueError ''Model not loaded'')
   \<and> predict_carbon_sequestration
        \<lparr>carbon_model = Some (init None), model_loaded = True,
         service_model_path = ''/app/models/carbon_estimation'',
         last_update = None\<rparr> ''t'' [] [] [] [] = Inl (ValueError ''Model not trained or loaded'')"
  using predict_uninitialized_fails [of "init None" "''t''" "[]"
      "\<lparr>carbon_model = None, model_loaded = False, service_model_path = ''/app/models/carbon_estimation'',
         last_update = None\<rparr>" "[]" "[]" "[]" "[]"
      "\<lparr>carbon_model = Some (init None), model_loaded = True,
         service_model_path = ''/app/models/carbon_estimation'',
         last_update = None\<rparr>" "init None"]
  by (simp add: init_def)

text \<open>
  Claim C8 says that the reported estimate is never negative. It fails: a network whose
  output is -3 makes \<^verbatim>\<open>predict\<close> report -3.
\<close>

theorem predict_estimate_negative_counterexample:
  "predict (trained_example (- 3)) ''t'' [] =
     Inr \<lparr>carbon_estimate_tonnes_co2_per_hectare_per_year = - 3, confidence = 0.95,
          timestamp = ''t'', model_version = ''1.0.0''\<rparr>
   \<and> carbon_estimate_tonnes_co2_per_hectare_per_year
        \<lparr>carbon_estimate_tonnes_co2_per_hectare_per_year = - 3, confidence = 0.95,
          timestamp = ''t'', model_version = ''1.0.0''\<rparr> < 0"
  by (simp add: predict_trained_example)

text \<open>
  Claim C8, amended. Whenever \<^verbatim>\<open>predict\<close> succeeds, the reported estimate is the
  output of the network on the scaled feature row, unchanged: no clamp is applied.
\<close>

theorem predict_estimate_is_raw_output:
  assumes "predict self utcnow data = Inr r"
  shows "\<exists>m sc xs. model self = Some m \<and> scaler self = Some sc
           \<and> sc (prepare_features self data) = Inr xs
           \<and> m xs = Inr (carbon_estimate_tonnes_co2_per_hectare_per_year r)"
  using assms unfolding predict_Inr_iff by auto

text \<open>
  The example model with output -3.
\<close>

theorem predict_estimate_is_raw_output_witness:
  "predict (trained_example (- 3)) ''t'' [] =
     Inr \<lparr>carbon_estimate_tonnes_co2_per_hectare_per_year = - 3, confidence = 0.95,
          timestamp = ''t'', model_version = ''1.0.0''\<rparr>
   \<and> (\<exists>xs. numeric_row (prepare_features (trained_example (- 3)) []) = Inr xs
           \<and> constant_network (- 3) xs = Inr (- 3))"
proof -
  have p: "predict (trained_example (- 3)) ''t'' [] =
     Inr \<lparr>carbon_estimate_tonnes_co2_per_hectare_per_year = - 3, confidence = 0.95,
          timestamp = ''t'', model_version = ''1.0.0''\<rparr>"
    by (simp add: predict_trained_example)
  from predict_estimate_is_raw_output [OF p] p show ?thesis
    by (simp add: trained_example_def init_def)
qed

subsection \<open>Feature assembly\<close>

lemma field_absent_get: "field_absent data g k \<Longrightarrow> dict_get (dict_get data g []) k d = d"
  by (auto simp: field_absent_def dict_get_def split: option.splits)

lemma all_less_13:
  "(\<forall>i<13. P (i::nat)) \<longleftrightarrow>
     P 0 \<and> P 1 \<and> P 2 \<and> P 3 \<and> P 4 \<and> P 5 \<and> P 6 \<and> P 7 \<and> P 8 \<and> P 9 \<and> P 10 \<and> P 11 \<and> P 12"
proof -
  have "{..<13::nat} = {0,1,2,3,4,5,6,7,8,9,10,11,12}" by auto arith
  then have "(\<forall>i<13. P i) \<longleftrightarrow> (\<forall>i\<in>{0,1,2,3,4,5,6,7,8,9,10,11,12}. P i)"
    by (metis lessThan_iff)
  then show ?thesis by simp
qed

text \<open>
  The feature row, component by component.
\<close>

lemma prepare_features_eq:
  "prepare_features self data =
     [dict_get (dict_get data ''satellite_data'' []) ''ndvi'' (PNum 0),
      dict_get (dict_get data ''satellite_data'' []) ''evi'' (PNum 0),
      dict_get (dict_get data ''satellite_data'' []) ''savi'' (PNum 0),
      dict_get (dict_get data ''satellite_data'' []) ''ndwi'' (PNum 0),
      dict_get (dict_get data ''sensor_data'' []) ''temperature'' (PNum 25),
      dict_get (dict_get data ''sensor_data'' []) ''humidity'' (PNum 70),
      dict_get (dict_get data ''sensor_data'' []) ''soil_moisture'' (PNum 0.5),
      dict_get (dict_get data ''sensor_data'' []) ''salinity'' (PNum 35),
      dict_get (dict_get data ''sensor_data'' []) ''ph'' (PNum 7),
      dict_get (dict_get data ''sensor_data'' []) ''organic_matter'' (PNum 2),
      dict_get (dict_get data ''field_measurements'' []) ''biomass_density'' (PNum 10),
      dict_get (dict_get data ''field_measurements'' []) ''canopy_height'' (PNum 5),
      dict_get (dict_get data ''project_data'' []) ''area_hectares'' (PNum 1),
      PNum (of_int (encode_ecosystem (ecosystem_types self)
        (dict_get (dict_get data ''project_data'' []) ''ecosystem_type'' (PStr ''mangrove''))))]"
  by (simp add: prepare_features_def Let_def)

lemma encode_default_unrecognized:
  "s \<notin> {''mangrove'', ''saltmarsh'', ''seagrass'', ''tidal_marsh''} \<Longrightarrow>
     encode_ecosystem default_ecosystem_types (PStr s) = 0"
  by (simp add: encode_ecosystem_def default_ecosystem_types_def dict_get_def)

lemma encode_default_mangrove:
  "encode_ecosystem default_ecosystem_types (PStr ''mangrove'') = 0"
  by (simp add: encode_ecosystem_def default_ecosystem_types_def dict_get_def)

text \<open>
  Claim C5. \<^verbatim>\<open>prepare_features\<close> is a total function of the object and the input, so equal
  inputs give equal rows. For an object with the built-in ecosystem table the row has 14
  components; component \<open>i < 13\<close> is the input's value for the \<open>i\<close>-th field of the
  specification's table and the documented default when the field is absent (its group
  missing, or the key missing from the group); the last component is 0 when the ecosystem
  type is absent, is a string outside the table, or is \<open>mangrove\<close>; and with all
  groups absent the row is the row of defaults.
\<close>

theorem prepare_features_defaults:
  assumes tbl: "ecosystem_types self = default_ecosystem_types"
  shows "length (prepare_features self data) = 14
       \<and> (\<forall>i<13. case documented_defaults ! i of (g, k, d) \<Rightarrow>
              prepare_features self data ! i = dict_get (dict_get data g []) k (PNum d)
            \<and> (field_absent data g k \<longrightarrow> prepare_features self data ! i = PNum d))
       \<and> (field_absent data ''project_data'' ''ecosystem_type'' \<longrightarrow>
            prepare_features self data ! 13 = PNum 0)
       \<and> (\<forall>s. dict_get (dict_get data ''project_data'' []) ''ecosystem_type'' (PStr ''mangrove'')
                 = PStr s
              \<and> s \<notin> {''mangrove'', ''saltmarsh'', ''seagrass'', ''tidal_marsh''} \<longrightarrow>
            prepare_features self data ! 13 = PNum 0)
       \<and> (dict_get (dict_get data ''project_data'' []) ''ecosystem_type'' (PStr ''mangrove'')
            = PStr ''mangrove'' \<longrightarrow>
            prepare_features self data ! 13 = PNum 0)
       \<and> prepare_features self [] =
            [PNum 0, PNum 0, PNum 0, PNum 0, PNum 25, PNum 70, PNum 0.5, PNum 35, PNum 7,
             PNum 2, PNum 10, PNum 5, PNum 1, PNum 0]"
proof -
  have len: "length (prepare_features self data) = 14"
    by (simp add: prepare_features_eq)
  have get: "\<forall>i<13. case documented_defaults ! i of (g, k, d) \<Rightarrow>
              prepare_features self data ! i = dict_get (dict_get data g []) k (PNum d)
            \<and> (field_absent data g k \<longrightarrow> prepare_features self data ! i = PNum d)"
    unfolding all_less_13 prepare_features_eq documented_defaults_def
    by (simp add: field_absent_get)
  have n13: "prepare_features self data ! 13 = PNum (of_int (encode_ecosystem default_ecosystem_types
        (dict_get (dict_get data ''project_data'' []) ''ecosystem_type'' (PStr ''mangrove''))))"
    by (simp add: prepare_features_eq tbl)
  have absent: "field_absent data ''project_data'' ''ecosystem_type'' \<longrightarrow>
            prepare_features self data ! 13 = PNum 0"
    by (simp add: n13 field_absent_get encode_default_mangrove)
  have unrec: "\<forall>s. dict_get (dict_get data ''project_data'' []) ''ecosystem_type'' (PStr ''mangrove'')
                 = PStr s
              \<and> s \<notin> {''mangrove'', ''saltmarsh'', ''seagrass'', ''tidal_marsh''} \<longrightarrow>
            prepare_features self data ! 13 = PNum 0"
    using encode_default_unrecognized by (simp add: n13)
  have mangrove: "dict_get (dict_get data ''project_data'' []) ''ecosystem_type'' (PStr ''mangrove'')
            = PStr ''mangrove'' \<longrightarrow>
            prepare_features self data ! 13 = PNum 0"
    by (simp add: n13 encode_default_mangrove)
  have empty: "prepare_features self [] =
            [PNum 0, PNum 0, PNum 0, PNum 0, PNum 25, PNum 70, PNum 0.5, PNum 35, PNum 7,
             PNum 2, PNum 10, PNum 5, PNum 1, PNum 0]"
    by (simp add: prepare_features_eq tbl dict_get_def encode_default_mangrove)
  from len get absent unrec mangrove empty show ?thesis by blast
qed

text \<open>
  An unknown ecosystem type \<open>kelp\<close> with one sensor reading, and the empty input.
\<close>

theorem prepare_features_defaults_witness:
  "ecosystem_types (init None) = default_ecosystem_types
   \<and> field_absent kelp_input ''satellite_data'' ''ndvi''
   \<and> field_absent kelp_input ''sensor_data'' ''humidity''
   \<and> prepare_features (init None) kelp_input =
        [PNum 0, PNum 0, PNum 0, PNum 0, PNum 31, PNum 70, PNum 0.5, PNum 35, PNum 7,
         PNum 2, PNum 10, PNum 5, PNum 1, PNum 0]
   \<and> prepare_features (init None) [] =
        [PNum 0, PNum 0, PNum 0, PNum 0, PNum 25, PNum 70, PNum 0.5, PNum 35, PNum 7,
         PNum 2, PNum 10, PNum 5, PNum 1, PNum 0]"
proof -
  have t: "ecosystem_types (init None) = default_ecosystem_types" by (simp add: init_def)
  have v: "prepare_features (init None) kelp_input =
        [PNum 0, PNum 0, PNum 0, PNum 0, PNum 31, PNum 70, PNum 0.5, PNum 35, PNum 7,
         PNum 2, PNum 10, PNum 5, PNum 1, PNum 0]"
    by (simp add: prepare_features_eq kelp_input_def dict_get_def init_def
        encode_ecosystem_def default_ecosystem_types_def)
  have a: "field_absent kelp_input ''satellite_data'' ''ndvi''"
      "field_absent kelp_input ''sensor_data'' ''humidity''"
    by (simp_all add: field_absent_def kelp_input_def)
  from prepare_features_defaults [OF t, of kelp_input] t v a show ?thesis by simp
qed

subsection \<open>Data quality and recommendations\<close>

lemma add_point_simps:
  "quality_score (add_point b q) = quality_score q + (if b then 1 else 0)"
  "max_score (add_point b q) = max_score q"
  "issues_so_far (add_point b q) = issues_so_far q"
  by (simp_all add: add_point_def)

lemma points_of_absent: "\<not> group_present d g \<Longrightarrow> points_of d g keys = 0"
  by (simp add: group_present_def points_of_def dict_in_def)

lemma points_of_bounds: "0 \<le> points_of d g keys \<and> points_of d g keys \<le> int (length keys)"
  by (simp add: points_of_def)

lemma check_satellite_data_eq:
  "quality_score (check_satellite_data d q) =
     quality_score q + points_of d ''satellite_data'' [''ndvi'', ''evi'', ''savi'', ''ndwi'']"
  "max_score (check_satellite_data d q) =
     max_score q + (if group_present d ''satellite_data'' then 4 else 0)"
  "issues_so_far (check_satellite_data d q) =
     issues_so_far q @ (if group_present d ''satellite_data'' then []
                        else [''No satellite data provided''])"
  by (simp_all add: check_satellite_data_def Let_def add_point_simps group_present_def
      points_of_def dict_in_def)

lemma check_sensor_data_eq:
  "quality_score (check_sensor_data d q) =
     quality_score q + points_of d ''sensor_data'' [''temperature'', ''soil_moisture'', ''salinity'']"
  "max_score (check_sensor_data d q) =
     max_score q + (if group_present d ''sensor_data'' then 3 else 0)"
  "issues_so_far (check_sensor_data d q) =
     issues_so_far q @ (if group_present d ''sensor_data'' then []
                        else [''No sensor data provided''])"
  by (simp_all add: check_sensor_data_def Let_def add_point_simps group_present_def
      points_of_def dict_in_def)

lemma check_field_measurements_eq:
  "quality_score (check_field_measurements d q) =
     quality_score q + points_of d ''field_measurements'' [''biomass_density'', ''canopy_height'']"
  "max_score (check_field_measurements d q) =
     max_score q + (if group_present d ''field_measurements'' then 2 else 0)"
  "issues_so_far (check_field_measurements d q) =
     issues_so_far q @ (if group_present d ''field_measurements'' then []
                        else [''No field measurements provided''])"
  by (simp_all add: check_field_measurements_def Let_def add_point_simps group_present_def
      points_of_def dict_in_def)

lemmas check_eqs = check_satellite_data_eq check_sensor_data_eq check_field_measurements_eq

lemma assess_score:
  "score (assess_data_quality d) =
     (if total_weight d > 0
      then real_of_int (total_points d) / real_of_int (total_weight d) * 100 else 0)"
  by (simp add: assess_data_quality_def Let_def check_eqs total_points_def total_weight_def)

lemma assess_level:
  "level (assess_data_quality d) =
     (if score (assess_data_quality d) > 80 then ''high''
      else if score (assess_data_quality d) > 60 then ''medium'' else ''low'')"
  by (simp add: assess_data_quality_def Let_def)

lemma assess_issues:
  "issues (assess_data_quality d) =
     (if group_present d ''satellite_data'' then [] else [''No satellite data provided''])
   @ (if group_present d ''sensor_data'' then [] else [''No sensor data provided''])
   @ (if group_present d ''field_measurements'' then [] else [''No field measurements provided''])"
  by (simp add: assess_data_quality_def Let_def check_eqs)

lemma points_le_weight: "0 \<le> total_points d \<and> total_points d \<le> total_weight d"
proof -
  have a: "0 \<le> points_of d ''satellite_data'' [''ndvi'', ''evi'', ''savi'', ''ndwi'']
      \<and> points_of d ''satellite_data'' [''ndvi'', ''evi'', ''savi'', ''ndwi'']
          \<le> (if group_present d ''satellite_data'' then 4 else 0)"
    using points_of_bounds [of d "''satellite_data''" "[''ndvi'', ''evi'', ''savi'', ''ndwi'']"]
    by (simp add: points_of_absent)
  have b: "0 \<le> points_of d ''sensor_data'' [''temperature'', ''soil_moisture'', ''salinity'']
      \<and> points_of d ''sensor_data'' [''temperature'', ''soil_moisture'', ''salinity'']
          \<le> (if group_present d ''sensor_data'' then 3 else 0)"
    using points_of_bounds [of d "''sensor_data''" "[''temperature'', ''soil_moisture'', ''salinity'']"]
    by (simp add: points_of_absent)
  have c: "0 \<le> points_of d ''field_measurements'' [''biomass_density'', ''canopy_height'']
      \<and> points_of d ''field_measurements'' [''biomass_density'', ''canopy_height'']
          \<le> (if group_present d ''field_measurements'' then 2 else 0)"
    using points_of_bounds [of d "''field_measurements''" "[''biomass_density'', ''canopy_height'']"]
    by (simp add: points_of_absent)
  from a b c show ?thesis unfolding total_points_def total_weight_def by linarith
qed

lemma scaled_unit_interval: "0 \<le> (q::real) \<Longrightarrow> q \<le> 1 \<Longrightarrow> 0 \<le> q * 100 \<and> q * 100 \<le> 100"
  by linarith

lemma score_bounds: "0 \<le> score (assess_data_quality d) \<and> score (assess_data_quality d) \<le> 100"
proof (cases "total_weight d > 0")
  case True
  let ?q = "real_of_int (total_points d) / real_of_int (total_weight d)"
  from True points_le_weight [of d] have "0 \<le> ?q" by simp
  moreover from True points_le_weight [of d] have "?q \<le> 1"
    by (simp add: divide_le_eq_1)
  ultimately have "0 \<le> ?q * 100 \<and> ?q * 100 \<le> 100" by (rule scaled_unit_interval)
  with True show ?thesis by (simp only: assess_score if_True)
next
  case False
  then show ?thesis by (simp add: assess_score)
qed

text \<open>
  Claim C9. \<^verbatim>\<open>_assess_data_quality\<close> is a total function: it raises for no input.
  When the sensor group is absent (missing or empty), the issues hold the string
  \<open>No sensor data provided\<close> exactly once and the weight the score is normalised
  by is that of the satellite and field groups alone. The score is the points scored as a
  percentage of the weights (4, 3, 2) of the groups present (0 when none is), lies
  between 0 and 100, and the level is \<open>high\<close> above 80, \<open>medium\<close> above 60 and
  \<open>low\<close> otherwise.
\<close>

theorem assess_data_quality_missing_sensor:
  "(\<not> group_present input_data ''sensor_data'' \<longrightarrow>
       count_list (issues (assess_data_quality input_data)) ''No sensor data provided'' = 1
     \<and> total_weight input_data =
         (if group_present input_data ''satellite_data'' then 4 else 0)
       + (if group_present input_data ''field_measurements'' then 2 else 0))
   \<and> score (assess_data_quality input_data) =
       (if total_weight input_data > 0
        then real_of_int (total_points input_data) / real_of_int (total_weight input_data) * 100
        else 0)
   \<and> 0 \<le> score (assess_data_quality input_data)
   \<and> score (assess_data_quality input_data) \<le> 100
   \<and> level (assess_data_quality input_data) =
       (if score (assess_data_quality input_data) > 80 then ''high''
        else if score (assess_data_quality input_data) > 60 then ''medium'' else ''low'')"
proof -
  have i: "\<not> group_present input_data ''sensor_data'' \<longrightarrow>
       count_list (issues (assess_data_quality input_data)) ''No sensor data provided'' = 1"
    by (simp add: assess_issues)
  have w: "\<not> group_present input_data ''sensor_data'' \<longrightarrow>
       total_weight input_data =
         (if group_present input_data ''satellite_data'' then 4 else 0)
       + (if group_present input_data ''field_measurements'' then 2 else 0)"
    by (simp add: total_weight_def)
  from i w assess_score [of input_data] score_bounds [of input_data] assess_level [of input_data]
  show ?thesis by blast
qed

text \<open>
  One of four satellite fields and both field measurements, no sensor data: 3 points
  out of 6.
\<close>

theorem assess_data_quality_missing_sensor_witness:
  "\<not> group_present no_sensor_input ''sensor_data''
   \<and> assess_data_quality no_sensor_input =
       \<lparr>score = 50, level = ''low'', issues = [''No sensor data provided'']\<rparr>
   \<and> count_list (issues (assess_data_quality no_sensor_input)) ''No sensor data provided'' = 1
   \<and> total_weight no_sensor_input = 6
   \<and> total_points no_sensor_input = 3"
proof -
  have g: "\<not> group_present no_sensor_input ''sensor_data''"
      "group_present no_sensor_input ''satellite_data''"
      "group_present no_sensor_input ''field_measurements''"
    by (simp_all add: group_present_def no_sensor_input_def dict_get_def)
  have p: "total_points no_sensor_input = 3"
    by (simp add: total_points_def points_of_def no_sensor_input_def dict_get_def dict_in_def)
  have v: "assess_data_quality no_sensor_input =
       \<lparr>score = 50, level = ''low'', issues = [''No sensor data provided'']\<rparr>"
    by (simp add: assess_data_quality_def Let_def check_satellite_data_def check_sensor_data_def
        check_field_measurements_def add_point_def no_sensor_input_def dict_get_def dict_in_def)
  from assess_data_quality_missing_sensor [of no_sensor_input] g p v show ?thesis by simp
qed

lemma generate_recommendations_absent_area:
  assumes "field_absent input_data ''project_data'' ''area_hectares''"
  shows "\<exists>recs. generate_recommendations input_data prediction = Inr (recs @ [small_area_caveat])"
  by (simp add: generate_recommendations_def Let_def field_absent_get [OF assms] append_if_def
      small_area_caveat_def)

text \<open>
  Claim C10. When the input gives no \<open>area_hectares\<close>, the recommendations end with
  the small-area caveat (the recommender reads the area with default 0), while the
  feature row for the same input holds the default area 1.
\<close>

theorem absent_area_small_for_recommender:
  assumes "field_absent input_data ''project_data'' ''area_hectares''"
  shows "(\<exists>recs. generate_recommendations input_data prediction = Inr recs
            \<and> small_area_caveat \<in> set recs \<and> last recs = small_area_caveat)
       \<and> prepare_features self input_data ! 12 = PNum 1"
proof -
  from generate_recommendations_absent_area [OF assms, of prediction]
  obtain recs where "generate_recommendations input_data prediction = Inr (recs @ [small_area_caveat])"
    by blast
  then have "\<exists>recs. generate_recommendations input_data prediction = Inr recs
            \<and> small_area_caveat \<in> set recs \<and> last recs = small_area_caveat"
    by simp
  moreover have "prepare_features self input_data ! 12 = PNum 1"
    by (simp add: prepare_features_def Let_def field_absent_get [OF assms])
  ultimately show ?thesis by blast
qed

text \<open>
  A mangrove project without an area.
\<close>

theorem absent_area_small_for_recommender_witness:
  "field_absent mangrove_no_area ''project_data'' ''area_hectares''
   \<and> generate_recommendations mangrove_no_area example_prediction =
       Inr [''Mangrove ecosystems typically have high carbon sequestration potential'',
            small_area_caveat]
   \<and> prepare_features (init None) mangrove_no_area ! 12 = PNum 1"
proof -
  have a: "field_absent mangrove_no_area ''project_data'' ''area_hectares''"
    by (simp add: field_absent_def mangrove_no_area_def)
  have q: "score (assess_data_quality mangrove_no_area) = 100"
    by (simp add: assess_data_quality_def Let_def check_satellite_data_def check_sensor_data_def
        check_field_measurements_def add_point_def mangrove_no_area_def dict_get_def dict_in_def)
  have e: "dict_get (dict_get mangrove_no_area ''project_data'' []) ''ecosystem_type'' (PStr [])
        = PStr ''mangrove''"
    by (simp add: mangrove_no_area_def dict_get_def)
  have r: "generate_recommendations mangrove_no_area example_prediction =
       Inr [''Mangrove ecosystems typically have high carbon sequestration potential'',
            small_area_caveat]"
    by (simp add: generate_recommendations_def Let_def q e field_absent_get [OF a]
        append_if_def example_prediction_def small_area_caveat_def)
  from absent_area_small_for_recommender [OF a, of example_prediction "init None"] a r show ?thesis by simp
qed

subsection \<open>Persistence\<close>

text \<open>
  The three files of an artifact have different names, and \<^verbatim>\<open>predict\<close> reads only
  the network, the scaler and the ecosystem table of the object.
\<close>

lemma artifact_paths_distinct:
  "path_join p ''carbon_estimation_model.h5'' \<noteq> path_join p ''scaler.pkl''"
  "path_join p ''carbon_estimation_model.h5'' \<noteq> path_join p ''metadata.json''"
  "path_join p ''scaler.pkl'' \<noteq> path_join p ''metadata.json''"
  by (simp_all add: path_join_def)

lemma predict_cong:
  assumes "model a = model b" "scaler a = scaler b" "ecosystem_types a = ecosystem_types b"
  shows "predict a t d = predict b t d"
proof -
  from assms(3) have "prepare_features a d = prepare_features b d"
    by (simp add: prepare_features_def)
  with assms(1,2) show ?thesis
    by (simp add: predict_def split: option.splits)
qed

lemma save_model_Inr:
  assumes "save_model self path utcnow fs = Inr fs'"
  shows "\<exists>m sc. model self = Some m \<and> scaler self = Some sc \<and> dirname path \<noteq> []
     \<and> fs' = fs(path_join path ''carbon_estimation_model.h5'' \<mapsto> H5File m,
               path_join path ''scaler.pkl'' \<mapsto> PickleFile sc,
               path_join path ''metadata.json'' \<mapsto>
                 JsonFile \<lparr>md_feature_columns = Some (feature_columns self),
                           md_ecosystem_types = Some (ecosystem_types self),
                           md_model_version = Some ''1.0.0'',
                           md_created_at = Some utcnow\<rparr>)"
  using assms by (auto simp: save_model_def Let_def split: option.splits if_splits)

lemma load_model_present:
  assumes "fs (path_join path ''carbon_estimation_model.h5'') = Some (H5File m)"
    and "fs (path_join path ''scaler.pkl'') = Some (PickleFile sc)"
    and "fs (path_join path ''metadata.json'') = Some (JsonFile md)"
  shows "load_model self path fs =
     (None, self\<lparr>model := Some m, scaler := Some sc,
                feature_columns :=
                  (case md_feature_columns md of None \<Rightarrow> feature_columns self | Some c \<Rightarrow> c),
                ecosystem_types :=
                  (case md_ecosystem_types md of None \<Rightarrow> ecosystem_types self | Some t \<Rightarrow> t)\<rparr>)"
  using assms by (simp add: load_model_def Let_def split: option.splits)

lemma load_model_missing:
  assumes "fs (path_join path ''carbon_estimation_model.h5'') = None
         \<or> fs (path_join path ''scaler.pkl'') = None
         \<or> fs (path_join path ''metadata.json'') = None"
  shows "fst (load_model self path fs) \<noteq> None"
  using assms
  by (auto simp: load_model_def Let_def split: option.splits stored_file.splits)

text \<open>
  Claim C6. When \<^verbatim>\<open>save_model\<close> on an object succeeds (so the object holds a network
  and a scaler), \<^verbatim>\<open>load_model\<close> from the same path on a freshly constructed object
  succeeds and restores the network, the scaler, the feature columns and the ecosystem
  table as one unit, and \<^verbatim>\<open>predict\<close> on the loaded object returns what it returns on the
  saved one for every input and clock reading. The libraries' serialisation is taken to
  keep the values it stores.
\<close>

theorem save_load_round_trip:
  assumes "save_model self path utcnow fs = Inr fs'"
  shows "\<exists>self'. load_model (init mp) path fs' = (None, self')
           \<and> model self' = model self \<and> model self \<noteq> None
           \<and> scaler self' = scaler self \<and> scaler self \<noteq> None
           \<and> feature_columns self' = feature_columns self
           \<and> ecosystem_types self' = ecosystem_types self
           \<and> (\<forall>t data. predict self' t data = predict self t data)"
proof -
  from save_model_Inr [OF assms] obtain m sc where
    m: "model self = Some m" and sc: "scaler self = Some sc" and
    fs': "fs' = fs(path_join path ''carbon_estimation_model.h5'' \<mapsto> H5File m,
               path_join path ''scaler.pkl'' \<mapsto> PickleFile sc,
               path_join path ''metadata.json'' \<mapsto>
                 JsonFile \<lparr>md_feature_columns = Some (feature_columns self),
                           md_ecosystem_types = Some (ecosystem_types self),
                           md_model_version = Some ''1.0.0'',
                           md_created_at = Some utcnow\<rparr>)"
    by blast
  let ?md = "\<lparr>md_feature_columns = Some (feature_columns self),
                           md_ecosystem_types = Some (ecosystem_types self),
                           md_model_version = Some ''1.0.0'',
                           md_created_at = Some utcnow\<rparr>"
  have f1: "fs' (path_join path ''carbon_estimation_model.h5'') = Some (H5File m)"
    unfolding fs' using artifact_paths_distinct [of path] by simp
  have f2: "fs' (path_join path ''scaler.pkl'') = Some (PickleFile sc)"
    unfolding fs' using artifact_paths_distinct [of path] by simp
  have f3: "fs' (path_join path ''metadata.json'') = Some (JsonFile ?md)"
    unfolding fs' by simp
  let ?self' = "(init mp)\<lparr>model := Some m, scaler := Some sc,
                feature_columns := feature_columns self,
                ecosystem_types := ecosystem_types self\<rparr>"
  have l: "load_model (init mp) path fs' = (None, ?self')"
    using load_model_present [OF f1 f2 f3, of "init mp"] by simp
  have p: "\<forall>t data. predict ?self' t data = predict self t data"
    using predict_cong [of ?self' self] m sc by simp
  from l p m sc show ?thesis by simp
qed

text \<open>
  The example model saved into an empty file system and loaded again.
\<close>

theorem save_load_round_trip_witness:
  "save_model (trained_example 12) artifact_dir ''2026-01-01T00:00:00'' Map.empty
     = Inr saved_example
   \<and> load_model (init None) artifact_dir saved_example = (None, trained_example 12)
   \<and> predict (trained_example 12) ''t'' [] =
       Inr \<lparr>carbon_estimate_tonnes_co2_per_hectare_per_year = 12, confidence = 0.88,
            timestamp = ''t'', model_version = ''1.0.0''\<rparr>"
proof -
  have d: "dirname artifact_dir = ''/app/models''"
    by (simp add: dirname_def artifact_dir_def)
  have s: "save_model (trained_example 12) artifact_dir ''2026-01-01T00:00:00'' Map.empty
     = Inr saved_example"
    by (simp add: save_model_def d Let_def trained_example_def init_def saved_example_def)
  have p: "predict (trained_example 12) ''t'' [] =
       Inr \<lparr>carbon_estimate_tonnes_co2_per_hectare_per_year = 12, confidence = 0.88,
            timestamp = ''t'', model_version = ''1.0.0''\<rparr>"
    by (simp add: predict_trained_example)
  from save_load_round_trip [OF s, of None] obtain self' where
    l: "load_model (init None) artifact_dir saved_example = (None, self')"
    and e: "model self' = model (trained_example 12)" "scaler self' = scaler (trained_example 12)"
      "feature_columns self' = feature_columns (trained_example 12)"
      "ecosystem_types self' = ecosystem_types (trained_example 12)"
    by blast
  have "self' = (init None)\<lparr>model := model self', scaler := scaler self',
      feature_columns := feature_columns self', ecosystem_types := ecosystem_types self'\<rparr>"
    using l by (auto simp: load_model_def Let_def split: option.splits stored_file.splits)
  with e have "self' = trained_example 12"
    by (simp add: trained_example_def init_def)
  with l s p show ?thesis by simp
qed

text \<open>
  Claim C7 says that loading an artifact whose feature-column order differs from the
  expected order fails. It does not: \<^verbatim>\<open>load_model\<close> returns normally and the object
  then holds the artifact's columns.
\<close>

theorem load_mismatched_columns_counterexample:
  "load_model (init None) artifact_dir mismatched_artifact
     = (None, (trained_example 12)\<lparr>feature_columns := mismatched_columns\<rparr>)
   \<and> mismatched_columns \<noteq> default_feature_columns"
proof -
  have "load_model (init None) artifact_dir mismatched_artifact
     = (None, (trained_example 12)\<lparr>feature_columns := mismatched_columns\<rparr>)"
    by (simp add: load_model_def Let_def mismatched_artifact_def artifact_paths_distinct
        trained_example_def init_def)
  moreover have "mismatched_columns \<noteq> default_feature_columns"
    by (simp add: mismatched_columns_def default_feature_columns_def)
  ultimately show ?thesis by simp
qed

text \<open>
  Claim C7, amended. \<^verbatim>\<open>load_model\<close> compares nothing: when the network file, the
  scaler file and the metadata file are all there, it succeeds and takes the feature
  columns and the ecosystem table of the metadata, whatever they are (keeping its own
  value for a key the metadata lacks). When one of the three files is missing it raises.
  \<^verbatim>\<open>save_model\<close> on an object without network or scaler raises
  \<^verbatim>\<open>ValueError("No model to save")\<close>, the persistence error of the specification.
\<close>

theorem load_adopts_artifact_save_needs_model:
  "(fs (path_join path ''carbon_estimation_model.h5'') = Some (H5File m)
      \<and> fs (path_join path ''scaler.pkl'') = Some (PickleFile sc)
      \<and> fs (path_join path ''metadata.json'') = Some (JsonFile md) \<longrightarrow>
      load_model self path fs =
        (None, self\<lparr>model := Some m, scaler := Some sc,
                   feature_columns :=
                     (case md_feature_columns md of None \<Rightarrow> feature_columns self | Some c \<Rightarrow> c),
                   ecosystem_types :=
                     (case md_ecosystem_types md of None \<Rightarrow> ecosystem_types self | Some t \<Rightarrow> t)\<rparr>))
   \<and> (fs0 (path_join path ''carbon_estimation_model.h5'') = None
      \<or> fs0 (path_join path ''scaler.pkl'') = None
      \<or> fs0 (path_join path ''metadata.json'') = None \<longrightarrow>
      fst (load_model self path fs0) \<noteq> None)
   \<and> (model self0 = None \<or> scaler self0 = None \<longrightarrow>
      save_model self0 path utcnow fs = Inl (ValueError ''No model to save''))"
proof -
  have "model self0 = None \<or> scaler self0 = None \<longrightarrow>
      save_model self0 path utcnow fs = Inl (ValueError ''No model to save'')"
    by (auto simp: save_model_def split: option.splits)
  with load_model_present [of fs path m sc md self] load_model_missing [of fs0 path self]
  show ?thesis by blast
qed

text \<open>
  The artifact with other columns, an empty file system, and a fresh object.
\<close>

theorem load_adopts_artifact_save_needs_model_witness:
  "mismatched_artifact (path_join artifact_dir ''carbon_estimation_model.h5'')
     = Some (H5File (constant_network 12))
   \<and> load_model (init None) artifact_dir mismatched_artifact
     = (None, (trained_example 12)\<lparr>feature_columns := mismatched_columns\<rparr>)
   \<and> fst (load_model (init None) artifact_dir Map.empty) \<noteq> None
   \<and> save_model (init None) artifact_dir ''t'' mismatched_artifact
       = Inl (ValueError ''No model to save'')"
proof -
  let ?md = "\<lparr>md_feature_columns = Some mismatched_columns,
                  md_ecosystem_types = Some default_ecosystem_types,
                  md_model_version = Some ''1.0.0'',
                  md_created_at = Some ''2026-01-01T00:00:00''\<rparr>"
  have f: "mismatched_artifact (path_join artifact_dir ''carbon_estimation_model.h5'')
     = Some (H5File (constant_network 12))"
    "mismatched_artifact (path_join artifact_dir ''scaler.pkl'') = Some (PickleFile numeric_row)"
    "mismatched_artifact (path_join artifact_dir ''metadata.json'') = Some (JsonFile ?md)"
    by (simp_all add: mismatched_artifact_def artifact_paths_distinct)
  have i: "model (init None) = None" by (simp add: init_def)
  from load_adopts_artifact_save_needs_model [of mismatched_artifact artifact_dir "constant_network 12" numeric_row ?md
      "init None" Map.empty "init None" "''t''"] f i
  show ?thesis by (simp add: trained_example_def init_def)
qed

end
